theory Spec2Isabelle
  imports Main "HOL-Library.AList"
begin

section \<open>Python values and the builtins the store relies on\<close>

text \<open>
  The store (\<^verbatim>\<open>anvio/db.py\<close>, class \<^verbatim>\<open>DB\<close>) moves three kinds of values between
  Python and its SQL backend: \<^verbatim>\<open>None\<close> (SQL \<^verbatim>\<open>NULL\<close>), integers and text. Strings are
  taken to be ASCII.
\<close>

datatype pyval = PyNone | PyInt int | PyStr string

datatype error = ConfigError | BackendError | IndexError | ValueError | TypeError

subsection \<open>\<^verbatim>\<open>str(x)\<close>\<close>

fun str_nat :: "nat \<Rightarrow> string" where
  "str_nat n =
     (if n < 10 then [''0123456789'' ! n]
      else str_nat (n div 10) @ [''0123456789'' ! (n mod 10)])"

declare str_nat.simps [simp del]

definition str_int :: "int \<Rightarrow> string" where
  "str_int i = (if i < 0 then CHR ''-'' # str_nat (nat (- i)) else str_nat (nat i))"

fun py_str :: "pyval \<Rightarrow> string" where
  "py_str PyNone = ''None''"
| "py_str (PyInt i) = str_int i"
| "py_str (PyStr s) = s"

subsection \<open>\<^verbatim>\<open>int(x)\<close>\<close>

text \<open>
  \<^verbatim>\<open>int(s)\<close> on text: surrounding whitespace is dropped, one sign is allowed, then
  decimal digits follow, where single underscores may separate digits. Anything else
  raises \<^verbatim>\<open>ValueError\<close>. \<^verbatim>\<open>int(None)\<close> raises \<^verbatim>\<open>TypeError\<close>.
\<close>

definition py_isspace :: "char \<Rightarrow> bool" where
  "py_isspace c = (c \<in> set [CHR 0x20, CHR 0x09, CHR 0x0A, CHR 0x0B, CHR 0x0C, CHR 0x0D])"

definition py_isdigit :: "char \<Rightarrow> bool" where
  "py_isdigit c = (c \<in> set ''0123456789'')"

fun digit_val :: "char \<Rightarrow> string \<Rightarrow> nat" where
  "digit_val c [] = 0"
| "digit_val c (d # ds) = (if c = d then 0 else Suc (digit_val c ds))"

fun digits :: "nat \<Rightarrow> bool \<Rightarrow> string \<Rightarrow> nat option" where
  "digits acc prev [] = (if prev then Some acc else None)"
| "digits acc prev (c # cs) =
     (if py_isdigit c then digits (10 * acc + digit_val c ''0123456789'') True cs
      else if c = CHR ''_'' \<and> prev then digits acc False cs
      else None)"

definition strip :: "string \<Rightarrow> string" where
  "strip s = rev (dropWhile py_isspace (rev (dropWhile py_isspace s)))"

definition int_of_str :: "string \<Rightarrow> int option" where
  "int_of_str s =
     (case strip s of
        [] \<Rightarrow> None
      | c # cs \<Rightarrow>
          if c = CHR ''-'' then map_option (\<lambda>n. - int n) (digits 0 False cs)
          else if c = CHR ''+'' then map_option int (digits 0 False cs)
          else map_option int (digits 0 False (c # cs)))"

fun py_int :: "pyval \<Rightarrow> error + int" where
  "py_int PyNone = Inl TypeError"
| "py_int (PyInt i) = Inr i"
| "py_int (PyStr s) = (case int_of_str s of None \<Rightarrow> Inl ValueError | Some i \<Rightarrow> Inr i)"

subsection \<open>List methods that raise\<close>

text \<open>\<^verbatim>\<open>xs.index(x)\<close> and \<open>xs.remove(x)\<close> raise \<^verbatim>\<open>ValueError\<close> when \<open>x\<close> is absent;
  \<^verbatim>\<open>xs[i]\<close> raises \<^verbatim>\<open>IndexError\<close> out of range.\<close>

fun first_index :: "'a list \<Rightarrow> 'a \<Rightarrow> nat" where
  "first_index [] x = 0"
| "first_index (y # ys) x = (if x = y then 0 else Suc (first_index ys x))"

definition list_index :: "'a list \<Rightarrow> 'a \<Rightarrow> error + nat" where
  "list_index xs x = (if x \<in> set xs then Inr (first_index xs x) else Inl ValueError)"

definition list_remove :: "'a list \<Rightarrow> 'a \<Rightarrow> error + 'a list" where
  "list_remove xs x = (if x \<in> set xs then Inr (remove1 x xs) else Inl ValueError)"

definition getitem :: "'a list \<Rightarrow> nat \<Rightarrow> error + 'a" where
  "getitem xs i = (if i < length xs then Inr (xs ! i) else Inl IndexError)"

section \<open>The SQL backend\<close>

text \<open>
  \<^verbatim>\<open>sqlite3\<close> is not part of the repository. It is modelled at the level of the
  statements the store sends: a database maps table names to a schema (column names with
  their declared types) and a list of rows. The SQL text that \<^verbatim>\<open>DB\<close> builds by string
  interpolation is represented by the statement it denotes for plain names and keys
  (no quote characters, no clash with a column name); SQL text is not parsed here.
  Values are stored as given: column affinity is not modelled. A statement the backend
  rejects raises \<^verbatim>\<open>BackendError\<close> (\<^verbatim>\<open>sqlite3.OperationalError\<close> and its kin).
\<close>

record table =
  columns :: "(string \<times> string) list"
  rows :: "pyval list list"

type_synonym database = "string \<rightharpoonup> table"

datatype stmt =
    CreateTable string "(string \<times> string) list"
  | DropTableIfExists string
  | InsertValues string nat
  | DeleteFrom string
  | DeleteWhereEq string string pyval
  | SelectAll string
  | SelectColWhereEq string string string pyval

record cursor =
  description :: "string list"
  fetchall :: "pyval list list"

definition no_rows :: cursor where
  "no_rows = \<lparr>description = [], fetchall = []\<rparr>"

definition cell :: "table \<Rightarrow> string \<Rightarrow> pyval list \<Rightarrow> pyval" where
  "cell t c r =
     (let i = first_index (map fst (columns t)) c in if i < length r then r ! i else PyNone)"

definition has_column :: "table \<Rightarrow> string \<Rightarrow> bool" where
  "has_column t c = (c \<in> set (map fst (columns t)))"

fun sqlite_execute :: "stmt \<Rightarrow> pyval list \<Rightarrow> database \<Rightarrow> error + (database \<times> cursor)" where
  "sqlite_execute (CreateTable n cs) ps d =
     (if d n \<noteq> None \<or> cs = [] \<or> \<not> distinct (map fst cs) then Inl BackendError
      else Inr (d(n \<mapsto> \<lparr>columns = cs, rows = []\<rparr>), no_rows))"
| "sqlite_execute (DropTableIfExists n) ps d = Inr (d(n := None), no_rows)"
| "sqlite_execute (InsertValues n k) ps d =
     (case d n of
        None \<Rightarrow> Inl BackendError
      | Some t \<Rightarrow>
          if length ps \<noteq> k \<or> k \<noteq> length (columns t) then Inl BackendError
          else Inr (d(n \<mapsto> t\<lparr>rows := rows t @ [ps]\<rparr>), no_rows))"
| "sqlite_execute (DeleteFrom n) ps d =
     (case d n of
        None \<Rightarrow> Inl BackendError
      | Some t \<Rightarrow> Inr (d(n \<mapsto> t\<lparr>rows := []\<rparr>), no_rows))"
| "sqlite_execute (DeleteWhereEq n c v) ps d =
     (case d n of
        None \<Rightarrow> Inl BackendError
      | Some t \<Rightarrow>
          if \<not> has_column t c then Inl BackendError
          else Inr (d(n \<mapsto> t\<lparr>rows := filter (\<lambda>r. cell t c r \<noteq> v) (rows t)\<rparr>), no_rows))"
| "sqlite_execute (SelectAll n) ps d =
     (case d n of
        None \<Rightarrow> Inl BackendError
      | Some t \<Rightarrow> Inr (d, \<lparr>description = map fst (columns t), fetchall = rows t\<rparr>))"
| "sqlite_execute (SelectColWhereEq c n w v) ps d =
     (case d n of
        None \<Rightarrow> Inl BackendError
      | Some t \<Rightarrow>
          if \<not> has_column t c \<or> \<not> has_column t w then Inl BackendError
          else Inr (d, \<lparr>description = [c],
                        fetchall = map (\<lambda>r. [cell t c r]) (filter (\<lambda>r. cell t w r = v) (rows t))\<rparr>))"

section \<open>The connection handle\<close>

text \<open>
  The file system holds one database per path, plus the set of paths an output file may be
  written to. A handle (\<^verbatim>\<open>class DB\<close>) has the path, the \<^verbatim>\<open>version\<close> attribute and the
  connection. \<open>conn\<close> is the database as the connection sees it, uncommitted changes
  included; the file holds what was last committed. \<open>issued\<close> records the statements
  handed to the cursor, in order (bookkeeping only: it lets one say that a call made no
  backend call).
\<close>

record filesys =
  dbs :: "string \<rightharpoonup> database"
  writable :: "string set"

record DB =
  db_path :: string
  version :: pyval
  conn :: database
  issued :: "stmt list"

text \<open>\<^verbatim>\<open>commit\<close>: \<^verbatim>\<open>self.conn.commit()\<close> writes the connection's state to the file.\<close>

definition commit :: "filesys \<Rightarrow> DB \<Rightarrow> filesys" where
  "commit fs db = fs\<lparr>dbs := (dbs fs)(db_path db \<mapsto> conn db)\<rparr>"

text \<open>\<^verbatim>\<open>_exec\<close>: execute one statement, then commit. When \<^verbatim>\<open>cursor.execute\<close> raises,
  the commit is not reached.\<close>

definition exec :: "stmt \<Rightarrow> pyval list \<Rightarrow> filesys \<Rightarrow> DB \<Rightarrow> (error + cursor) \<times> filesys \<times> DB" where
  "exec sql_query val fs db =
     (let db1 = db\<lparr>issued := issued db @ [sql_query]\<rparr> in
      case sqlite_execute sql_query val (conn db) of
        Inl e \<Rightarrow> (Inl e, fs, db1)
      | Inr (d, ret_val) \<Rightarrow>
          (let db2 = db1\<lparr>conn := d\<rparr> in (Inr ret_val, commit fs db2, db2)))"

text \<open>\<^verbatim>\<open>_exec_many\<close>: \<^verbatim>\<open>cursor.executemany\<close> runs the statement once per parameter
  row, inside the transaction the first row opens; the method returns without a commit.\<close>

fun executemany :: "stmt \<Rightarrow> pyval list list \<Rightarrow> database \<Rightarrow> error option \<times> database" where
  "executemany q [] d = (None, d)"
| "executemany q (ps # rest) d =
     (case sqlite_execute q ps d of
        Inl e \<Rightarrow> (Some e, d)
      | Inr (d', _) \<Rightarrow> executemany q rest d')"

definition exec_many :: "stmt \<Rightarrow> pyval list list \<Rightarrow> filesys \<Rightarrow> DB \<Rightarrow> (error + unit) \<times> filesys \<times> DB" where
  "exec_many sql_query vals fs db =
     (let db1 = db\<lparr>issued := issued db @ [sql_query]\<rparr> in
      case executemany sql_query vals (conn db) of
        (Some e, d) \<Rightarrow> (Inl e, fs, db1\<lparr>conn := d\<rparr>)
      | (None, d) \<Rightarrow> (Inr (), fs, db1\<lparr>conn := d\<rparr>))"

section \<open>Metadata table and generic table operations\<close>

definition create_self :: "filesys \<Rightarrow> DB \<Rightarrow> (error + unit) \<times> filesys \<times> DB" where
  "create_self fs db =
     (case exec (CreateTable ''self'' [(''key'', ''text''), (''value'', ''text'')]) [] fs db of
        (Inl e, fs1, db1) \<Rightarrow> (Inl e, fs1, db1)
      | (Inr _, fs1, db1) \<Rightarrow> (Inr (), fs1, db1))"

definition drop_table :: "string \<Rightarrow> filesys \<Rightarrow> DB \<Rightarrow> (error + unit) \<times> filesys \<times> DB" where
  "drop_table table_name fs db =
     (case exec (DropTableIfExists table_name) [] fs db of
        (Inl e, fs1, db1) \<Rightarrow> (Inl e, fs1, db1)
      | (Inr _, fs1, db1) \<Rightarrow> (Inr (), fs1, db1))"

definition create_table ::
  "string \<Rightarrow> string list \<Rightarrow> string list \<Rightarrow> filesys \<Rightarrow> DB \<Rightarrow> (error + unit) \<times> filesys \<times> DB" where
  "create_table table_name flds types fs db =
     (if length flds \<noteq> length types then (Inl ConfigError, fs, db)
      else
        (case exec (CreateTable table_name (zip flds types)) [] fs db of
           (Inl e, fs1, db1) \<Rightarrow> (Inl e, fs1, db1)
         | (Inr _, fs1, db1) \<Rightarrow> (Inr (), commit fs1 db1, db1)))"

definition set_meta_value :: "string \<Rightarrow> pyval \<Rightarrow> filesys \<Rightarrow> DB \<Rightarrow> (error + unit) \<times> filesys \<times> DB" where
  "set_meta_value key val fs db =
     (case exec (InsertValues ''self'' 2) [PyStr key, val] fs db of
        (Inl e, fs1, db1) \<Rightarrow> (Inl e, fs1, db1)
      | (Inr _, fs1, db1) \<Rightarrow> (Inr (), commit fs1 db1, db1))"

definition set_version :: "pyval \<Rightarrow> filesys \<Rightarrow> DB \<Rightarrow> (error + unit) \<times> filesys \<times> DB" where
  "set_version v fs db =
     (case set_meta_value ''version'' v fs db of
        (Inl e, fs1, db1) \<Rightarrow> (Inl e, fs1, db1)
      | (Inr _, fs1, db1) \<Rightarrow> (Inr (), commit fs1 db1, db1))"



text \<open>\<^verbatim>\<open>get_meta_value\<close>: the first matching row's value; \<^verbatim>\<open>None\<close> passes through,
  otherwise \<^verbatim>\<open>int(val)\<close> is tried and a \<^verbatim>\<open>ValueError\<close> leaves the value as it is.\<close>

definition coerce :: "pyval \<Rightarrow> error + pyval" where
  "coerce val =
     (case val of
        PyNone \<Rightarrow> Inr PyNone
      | _ \<Rightarrow>
         (case py_int val of
            Inr i \<Rightarrow> Inr (PyInt i)
          | Inl ValueError \<Rightarrow> Inr val
          | Inl e \<Rightarrow> Inl e))"

definition get_meta_value :: "string \<Rightarrow> filesys \<Rightarrow> DB \<Rightarrow> (error + pyval) \<times> filesys \<times> DB" where
  "get_meta_value key fs db =
     (case exec (SelectColWhereEq ''value'' ''self'' ''key'' (PyStr key)) [] fs db of
        (Inl e, fs1, db1) \<Rightarrow> (Inl e, fs1, db1)
      | (Inr response, fs1, db1) \<Rightarrow>
          (case fetchall response of
             [] \<Rightarrow> (Inl ConfigError, fs1, db1)
           | row # _ \<Rightarrow>
               (case getitem row 0 of
                  Inl e \<Rightarrow> (Inl e, fs1, db1)
                | Inr val \<Rightarrow> (coerce val, fs1, db1))))"

text \<open>\<^verbatim>\<open>get_version\<close>: the bare \<^verbatim>\<open>except\<close> turns every failure into a \<^verbatim>\<open>ConfigError\<close>.\<close>

definition get_version :: "filesys \<Rightarrow> DB \<Rightarrow> (error + pyval) \<times> filesys \<times> DB" where
  "get_version fs db =
     (case get_meta_value ''version'' fs db of
        (Inl e, fs1, db1) \<Rightarrow> (Inl ConfigError, fs1, db1)
      | (Inr v, fs1, db1) \<Rightarrow> (Inr v, fs1, db1))"

definition get_all_rows_from_table ::
  "string \<Rightarrow> filesys \<Rightarrow> DB \<Rightarrow> (error + pyval list list) \<times> filesys \<times> DB" where
  "get_all_rows_from_table t fs db =
     (case exec (SelectAll t) [] fs db of
        (Inl e, fs1, db1) \<Rightarrow> (Inl e, fs1, db1)
      | (Inr response, fs1, db1) \<Rightarrow> (Inr (fetchall response), fs1, db1))"

definition get_table_structure ::
  "string \<Rightarrow> filesys \<Rightarrow> DB \<Rightarrow> (error + string list) \<times> filesys \<times> DB" where
  "get_table_structure t fs db =
     (case exec (SelectAll t) [] fs db of
        (Inl e, fs1, db1) \<Rightarrow> (Inl e, fs1, db1)
      | (Inr response, fs1, db1) \<Rightarrow> (Inr (description response), fs1, db1))"

section \<open>Opening a store\<close>

text \<open>Modelled from the spec: \<^verbatim>\<open>filesnpaths.is_output_file_writable\<close> and
  \<^verbatim>\<open>filesnpaths.is_file_exists\<close>, which are not among the sources. The spec has them fail
  with a configuration error when the path is not writable, respectively does not exist.\<close>

definition is_output_file_writable :: "filesys \<Rightarrow> string \<Rightarrow> error + unit" where
  "is_output_file_writable fs p = (if p \<in> writable fs then Inr () else Inl ConfigError)"

definition is_file_exists :: "filesys \<Rightarrow> string \<Rightarrow> error + unit" where
  "is_file_exists fs p = (if dbs fs p \<noteq> None then Inr () else Inl ConfigError)"

text \<open>\<^verbatim>\<open>sqlite3.connect\<close>: the connection starts from the file's content (an empty
  database when there is no file yet).\<close>

definition connect :: "filesys \<Rightarrow> string \<Rightarrow> database" where
  "connect fs p = (case dbs fs p of None \<Rightarrow> Map.empty | Some d \<Rightarrow> d)"

text \<open>\<^verbatim>\<open>DB.__init__\<close>.\<close>

definition DB_init :: "string \<Rightarrow> pyval \<Rightarrow> bool \<Rightarrow> bool \<Rightarrow> filesys \<Rightarrow> (error + DB) \<times> filesys" where
  "DB_init path client_version new_database ignore_version fs =
     (case (if new_database then is_output_file_writable fs path else is_file_exists fs path) of
        Inl e \<Rightarrow> (Inl e, fs)
      | Inr _ \<Rightarrow>
         (let fs0 = (if new_database \<and> dbs fs path \<noteq> None then fs\<lparr>dbs := (dbs fs)(path := None)\<rparr> else fs);
              self = \<lparr>db_path = path, version = PyNone, conn = connect fs0 path, issued = []\<rparr>
          in if new_database then
               (case create_self fs0 self of
                  (Inl e, fs1, _) \<Rightarrow> (Inl e, fs1)
                | (Inr _, fs1, self1) \<Rightarrow>
                    (case set_version client_version fs1 self1 of
                       (Inl e, fs2, _) \<Rightarrow> (Inl e, fs2)
                     | (Inr _, fs2, self2) \<Rightarrow> (Inr self2, fs2)))
             else
               (case get_version fs0 self of
                  (Inl e, fs1, _) \<Rightarrow> (Inl e, fs1)
                | (Inr v, fs1, self1) \<Rightarrow>
                    (let self2 = self1\<lparr>version := v\<rparr>
                     in if py_str (version self2) \<noteq> py_str client_version \<and> \<not> ignore_version
                        then (Inl ConfigError, fs1)
                        else (Inr self2, fs1)))))"

text \<open>\<^verbatim>\<open>copy_paste\<close>: the donor is opened with the version check switched off; an empty
  donor table returns at once; otherwise \<^verbatim>\<open>DELETE\<close> goes through \<^verbatim>\<open>_exec\<close> and the
  rows through \<^verbatim>\<open>_exec_many\<close>.\<close>

definition copy_paste :: "string \<Rightarrow> string \<Rightarrow> filesys \<Rightarrow> DB \<Rightarrow> (error + unit) \<times> filesys \<times> DB" where
  "copy_paste table_name source_db_path fs db =
     (case DB_init source_db_path PyNone False True fs of
        (Inl e, fs1) \<Rightarrow> (Inl e, fs1, db)
      | (Inr source_db, fs1) \<Rightarrow>
         (case get_all_rows_from_table table_name fs1 source_db of
            (Inl e, fs2, _) \<Rightarrow> (Inl e, fs2, db)
          | (Inr data, fs2, _) \<Rightarrow>
             (case data of
                [] \<Rightarrow> (Inr (), fs2, db)
              | row0 # _ \<Rightarrow>
                 (case exec (DeleteFrom table_name) [] fs2 db of
                    (Inl e, fs3, db3) \<Rightarrow> (Inl e, fs3, db3)
                  | (Inr _, fs3, db3) \<Rightarrow>
                      exec_many (InsertValues table_name (length row0)) data fs3 db3))))"

section \<open>The dict materializer\<close>

text \<open>
  \<^verbatim>\<open>get_table_as_dict\<close> receives \<^verbatim>\<open>table_structure\<close>, \<^verbatim>\<open>columns_of_interest\<close> and
  \<^verbatim>\<open>keys_of_interest\<close> as references to caller-owned containers (or \<^verbatim>\<open>None\<close>). The heap
  maps an address to the list stored there; a container is truthy when it is not empty.
  \<^verbatim>\<open>table_structure.remove(...)\<close> writes through the reference, and
  \<^verbatim>\<open>set(keys_of_interest)\<close> builds a new object that only the function holds.
\<close>

type_synonym heap = "nat \<Rightarrow> pyval list"

type_synonym entry = "(pyval \<times> pyval) list"

type_synonym dict = "(pyval \<times> entry) list"

definition truthy :: "heap \<Rightarrow> nat option \<Rightarrow> bool" where
  "truthy h x = (case x of None \<Rightarrow> False | Some r \<Rightarrow> h r \<noteq> [])"

definition deref :: "heap \<Rightarrow> nat option \<Rightarrow> pyval list" where
  "deref h x = (case x of None \<Rightarrow> [] | Some r \<Rightarrow> h r)"

text \<open>Lines 196 to 199: drop \<^verbatim>\<open>__parent__\<close> from the index list and from the structure.\<close>

definition omit_parent :: "bool \<Rightarrow> pyval list \<Rightarrow> nat list \<Rightarrow> error + (pyval list \<times> nat list)" where
  "omit_parent omit_parent_column ts ctr =
     (if omit_parent_column \<and> PyStr ''__parent__'' \<in> set ts then
        (case list_index ts (PyStr ''__parent__'') of
           Inl e \<Rightarrow> Inl e
         | Inr i \<Rightarrow>
            (case list_remove ctr i of
               Inl e \<Rightarrow> Inl e
             | Inr ctr' \<Rightarrow>
                (case list_remove ts (PyStr ''__parent__'') of
                   Inl e \<Rightarrow> Inl e
                 | Inr ts' \<Rightarrow> Inr (ts', ctr'))))
      else Inr (ts, ctr))"

text \<open>Lines 202 to 204: the loop over \<^verbatim>\<open>table_structure[1:]\<close>.\<close>

fun drop_columns :: "pyval list \<Rightarrow> pyval list \<Rightarrow> pyval list \<Rightarrow> nat list \<Rightarrow> error + nat list" where
  "drop_columns ts coi [] ctr = Inr ctr"
| "drop_columns ts coi (col # cols) ctr =
     (if col \<notin> set coi then
        (case list_index ts col of
           Inl e \<Rightarrow> Inl e
         | Inr i \<Rightarrow>
            (case list_remove ctr i of
               Inl e \<Rightarrow> Inl e
             | Inr ctr' \<Rightarrow> drop_columns ts coi cols ctr'))
      else drop_columns ts coi cols ctr)"

text \<open>Lines 232 and 233: \<^verbatim>\<open>entry[table_structure[i]] = row[i]\<close> for each index kept.\<close>

fun build_entry :: "pyval list \<Rightarrow> pyval list \<Rightarrow> nat list \<Rightarrow> entry \<Rightarrow> error + entry" where
  "build_entry ts row [] entry = Inr entry"
| "build_entry ts row (i # js) entry =
     (case getitem row i of
        Inl e \<Rightarrow> Inl e
      | Inr v \<Rightarrow>
         (case getitem ts i of
            Inl e \<Rightarrow> Inl e
          | Inr name \<Rightarrow> build_entry ts row js (AList.update name v entry)))"

text \<open>Lines 220 to 238: the loop over the rows. \<open>koi\<close> is the local set; the test
  \<^verbatim>\<open>if keys_of_interest:\<close> is made anew for every row.\<close>

fun scan_rows ::
  "pyval list \<Rightarrow> nat list \<Rightarrow> bool \<Rightarrow> pyval list list \<Rightarrow> pyval list \<Rightarrow> dict \<Rightarrow> error + dict" where
  "scan_rows ts ctr string_the_key [] koi results_dict = Inr results_dict"
| "scan_rows ts ctr string_the_key (row # rest) koi results_dict =
     (case (if koi \<noteq> [] then
              (case getitem row 0 of
                 Inl e \<Rightarrow> Inl e
               | Inr k \<Rightarrow> if k \<in> set koi then Inr (True, removeAll k koi) else Inr (False, koi))
            else Inr (True, koi)) of
        Inl e \<Rightarrow> Inl e
      | Inr (keep, koi') \<Rightarrow>
          if \<not> keep then scan_rows ts ctr string_the_key rest koi' results_dict
          else
            (case build_entry ts row (drop 1 ctr) [] of
               Inl e \<Rightarrow> Inl e
             | Inr entry \<Rightarrow>
                (case getitem row 0 of
                   Inl e \<Rightarrow> Inl e
                 | Inr k \<Rightarrow>
                     scan_rows ts ctr string_the_key rest koi'
                       (AList.update (if string_the_key then PyStr (py_str k) else k) entry results_dict))))"

definition get_table_as_dict ::
  "string \<Rightarrow> nat option \<Rightarrow> bool \<Rightarrow> nat option \<Rightarrow> nat option \<Rightarrow> bool \<Rightarrow> bool \<Rightarrow>
     heap \<Rightarrow> filesys \<Rightarrow> DB \<Rightarrow> (error + dict) \<times> heap \<times> filesys \<times> DB" where
  "get_table_as_dict t table_structure string_the_key columns_of_interest keys_of_interest
       omit_parent_column error_if_no_data h fs db =
     (case (if \<not> truthy h table_structure then
              (case get_table_structure t fs db of
                 (Inl e, fs1, db1) \<Rightarrow> (Inl e, fs1, db1)
               | (Inr names, fs1, db1) \<Rightarrow> (Inr (map PyStr names, None), fs1, db1))
            else (Inr (deref h table_structure, table_structure), fs, db)) of
        (Inl e, fs1, db1) \<Rightarrow> (Inl e, h, fs1, db1)
      | (Inr (ts0, alias), fs1, db1) \<Rightarrow>
         (case omit_parent omit_parent_column ts0 [0..<length ts0] of
            Inl e \<Rightarrow> (Inl e, h, fs1, db1)
          | Inr (ts, ctr0) \<Rightarrow>
             (let h1 = (case alias of None \<Rightarrow> h | Some r \<Rightarrow> h(r := ts)) in
              case (if truthy h1 columns_of_interest
                    then drop_columns ts (deref h1 columns_of_interest) (drop 1 ts) ctr0
                    else Inr ctr0) of
                Inl e \<Rightarrow> (Inl e, h1, fs1, db1)
              | Inr columns_to_return \<Rightarrow>
                 if length columns_to_return = 1 then
                   (if error_if_no_data then (Inl ConfigError, h1, fs1, db1) else (Inr [], h1, fs1, db1))
                 else
                   (let koi = (if truthy h1 keys_of_interest then remdups (deref h1 keys_of_interest) else [])
                    in case get_all_rows_from_table t fs1 db1 of
                         (Inl e, fs2, db2) \<Rightarrow> (Inl e, h1, fs2, db2)
                       | (Inr rs, fs2, db2) \<Rightarrow>
                           (scan_rows ts columns_to_return string_the_key rs koi [], h1, fs2, db2)))))"

section \<open>The alignment-hit parser\<close>

text \<open>
  \<^verbatim>\<open>Palindromes.find\<close> (\<^verbatim>\<open>anvio/sequencefeatures.py\<close>, lines 186 to 227) walks the hit
  report: iterations, their hits, their \<^verbatim>\<open>Hsp\<close> records. A record is given here with its
  numeric fields already read. \<open>p_length\<close> is the attribute \<^verbatim>\<open>length\<close>.
\<close>

record hsp =
  Hsp_query_from :: int
  Hsp_query_to :: int
  Hsp_qseq :: string
  Hsp_hit_from :: int
  Hsp_hit_to :: int
  Hsp_hseq :: string
  Hsp_align_len :: int
  Hsp_gaps :: int
  Hsp_identity :: int

record palindrome =
  first_start :: int
  first_end :: int
  first_sequence :: string
  second_start :: int
  second_end :: int
  second_sequence :: string
  p_length :: int
  num_gaps :: int
  num_mismatches :: int
  midline :: string
  distance :: int

fun midline_of :: "string \<Rightarrow> string \<Rightarrow> error + string" where
  "midline_of [] ss = Inr []"
| "midline_of (c # cs) [] = Inl IndexError"
| "midline_of (c # cs) (d # ds) =
     (case midline_of cs ds of
        Inl e \<Rightarrow> Inl e
      | Inr m \<Rightarrow> Inr ((if c = d then CHR ''|'' else CHR ''x'') # m))"

fun parse_hsps ::
  "hsp list \<Rightarrow> int set \<Rightarrow> palindrome list \<Rightarrow> (error + unit) \<times> int set \<times> palindrome list" where
  "parse_hsps [] positions_processed ps = (Inr (), positions_processed, ps)"
| "parse_hsps (x # xs) positions_processed ps =
     (if Hsp_query_from x - 1 \<in> positions_processed then parse_hsps xs positions_processed ps
      else
        (let seen = insert (Hsp_hit_from x) positions_processed in
         case midline_of (Hsp_qseq x) (Hsp_hseq x) of
           Inl e \<Rightarrow> (Inl e, seen, ps)
         | Inr m \<Rightarrow>
             parse_hsps xs seen
               (ps @ [\<lparr>first_start = Hsp_query_from x - 1,
                        first_end = Hsp_query_to x,
                        first_sequence = Hsp_qseq x,
                        second_start = Hsp_hit_to x - 1,
                        second_end = Hsp_hit_from x,
                        second_sequence = Hsp_hseq x,
                        p_length = Hsp_align_len x,
                        num_gaps = Hsp_gaps x,
                        num_mismatches = Hsp_align_len x - Hsp_identity x,
                        midline = m,
                        distance = (Hsp_hit_to x - 1) - (Hsp_query_from x - 1)\<rparr>])))"

text \<open>The three nested loops share one \<^verbatim>\<open>positions_processed\<close>, which starts empty, and
  append to the list \<^verbatim>\<open>self.palindromes[sequence_name]\<close>, which starts empty.\<close>

definition find_parse :: "hsp list list list \<Rightarrow> (error + unit) \<times> int set \<times> palindrome list" where
  "find_parse root = parse_hsps (concat (concat root)) {} []"

section \<open>Observations on a store, and scenario data\<close>

text \<open>
  A database is a store when it has the metadata table as \<^verbatim>\<open>create_self\<close> makes it.
  \<open>meta_rows\<close> are the rows of that table with a given key, in row order, and
  \<open>meta_values\<close> their values.
\<close>

definition is_store :: "database \<Rightarrow> bool" where
  "is_store d =
     (case d ''self'' of None \<Rightarrow> False | Some t \<Rightarrow> map fst (columns t) = [''key'', ''value''])"


definition meta_values :: "database \<Rightarrow> string \<Rightarrow> pyval list" where
  "meta_values d key =
     (case d ''self'' of
        None \<Rightarrow> []
      | Some t \<Rightarrow> map (cell t ''value'') (filter (\<lambda>r. cell t ''key'' r = PyStr key) (rows t)))"

text \<open>The table of the spec's scenario, in a store whose \<^verbatim>\<open>version\<close> entry holds \<open>v\<close>.\<close>

definition seqs :: table where
  "seqs = \<lparr>columns = [(''id'', ''text''), (''seq'', ''text'')],
           rows = [[PyStr ''a'', PyStr ''ACGT''], [PyStr ''b'', PyStr ''TTTT'']]\<rparr>"

definition meta_of :: "pyval \<Rightarrow> table" where
  "meta_of v = \<lparr>columns = [(''key'', ''text''), (''value'', ''text'')],
                rows = [[PyStr ''version'', v]]\<rparr>"

definition scenario_db :: "pyval \<Rightarrow> database" where
  "scenario_db v = [''self'' \<mapsto> meta_of v, ''seqs'' \<mapsto> seqs]"

definition scenario_fs :: "pyval \<Rightarrow> filesys" where
  "scenario_fs v = \<lparr>dbs = [''contigs.db'' \<mapsto> scenario_db v], writable = {}\<rparr>"

definition scenario_store :: "pyval \<Rightarrow> DB" where
  "scenario_store v =
     \<lparr>db_path = ''contigs.db'', version = PyNone, conn = scenario_db v, issued = []\<rparr>"


text \<open>A donor store with the scenario's table holding the rows \<open>rs\<close>, beside the scenario
  store; and a store whose metadata table has two rows for the key \<^verbatim>\<open>project\<close>.\<close>

definition donor_db :: "pyval list list \<Rightarrow> database" where
  "donor_db rs = [''self'' \<mapsto> meta_of (PyStr ''5''), ''seqs'' \<mapsto> seqs\<lparr>rows := rs\<rparr>]"

definition two_stores :: "pyval list list \<Rightarrow> filesys" where
  "two_stores rs =
     \<lparr>dbs = [''contigs.db'' \<mapsto> scenario_db (PyStr ''5''), ''donor.db'' \<mapsto> donor_db rs],
      writable = {}\<rparr>"



text \<open>Caller-owned containers: a structure list that names \<^verbatim>\<open>__parent__\<close>, a list of
  columns of interest and a collection of keys; then tables with a \<^verbatim>\<open>__parent__\<close> column
  in the middle and at the end.\<close>

definition parent_heap :: heap where
  "parent_heap =
     (\<lambda>_. [])(0 := [PyStr ''id'', PyStr ''seq'', PyStr ''__parent__''],
              1 := [PyStr ''seq''],
              2 := [PyStr ''a''])"

definition keys_heap :: heap where
  "keys_heap = (\<lambda>_. [])(0 := [PyStr ''a''])"

definition layered :: table where
  "layered = \<lparr>columns = [(''id'', ''text''), (''__parent__'', ''text''), (''seq'', ''text'')],
              rows = [[PyStr ''a'', PyStr ''p'', PyStr ''ACGT'']]\<rparr>"

definition layered_db :: database where
  "layered_db = [''self'' \<mapsto> meta_of (PyStr ''5''), ''layered'' \<mapsto> layered]"

definition layered_fs :: filesys where
  "layered_fs = \<lparr>dbs = [''profile.db'' \<mapsto> layered_db], writable = {}\<rparr>"

definition layered_store :: DB where
  "layered_store = \<lparr>db_path = ''profile.db'', version = PyInt 5, conn = layered_db, issued = []\<rparr>"

definition trailing :: table where
  "trailing = \<lparr>columns = [(''id'', ''text''), (''seq'', ''text''), (''__parent__'', ''text'')],
               rows = [[PyStr ''a'', PyStr ''ACGT'', PyStr ''p'']]\<rparr>"

definition trailing_store :: DB where
  "trailing_store =
     \<lparr>db_path = ''profile.db'', version = PyInt 5,
      conn = [''self'' \<mapsto> meta_of (PyStr ''5''), ''trailing'' \<mapsto> trailing], issued = []\<rparr>"

text \<open>Three records of a hit report: the first two start at the same query position, the
  third starts where the first one's hit ends.\<close>

definition hit_a :: hsp where
  "hit_a = \<lparr>Hsp_query_from = 1, Hsp_query_to = 5, Hsp_qseq = ''ACGTA'',
            Hsp_hit_from = 40, Hsp_hit_to = 36, Hsp_hseq = ''ACGTA'',
            Hsp_align_len = 5, Hsp_gaps = 0, Hsp_identity = 5\<rparr>"

definition hit_b :: hsp where
  "hit_b = \<lparr>Hsp_query_from = 1, Hsp_query_to = 5, Hsp_qseq = ''ACGTA'',
            Hsp_hit_from = 80, Hsp_hit_to = 76, Hsp_hseq = ''ACGTT'',
            Hsp_align_len = 5, Hsp_gaps = 0, Hsp_identity = 4\<rparr>"

definition hit_c :: hsp where
  "hit_c = \<lparr>Hsp_query_from = 41, Hsp_query_to = 45, Hsp_qseq = ''GGGCC'',
            Hsp_hit_from = 60, Hsp_hit_to = 56, Hsp_hseq = ''GGGCC'',
            Hsp_align_len = 5, Hsp_gaps = 0, Hsp_identity = 5\<rparr>"

section \<open>Basic facts\<close>

lemma commit_same: "dbs fs (db_path db) = Some (conn db) \<Longrightarrow> commit fs db = fs"
  by (simp add: commit_def fun_upd_idem)

lemma has_column_names: "map fst (columns t) = cs \<Longrightarrow> has_column t c = (c \<in> set cs)"
  unfolding has_column_def by simp

lemma is_store_cols:
  assumes "is_store d"
  obtains t where "d ''self'' = Some t" "has_column t ''key''" "has_column t ''value''"
    "length (columns t) = 2" "map fst (columns t) = [''key'', ''value'']"
proof -
  from assms obtain t where t: "d ''self'' = Some t" "map fst (columns t) = [''key'', ''value'']"
    by (auto simp: is_store_def split: option.splits)
  from t(2) have "length (map fst (columns t)) = 2" by simp
  then have len: "length (columns t) = 2" by simp
  have k: "has_column t ''key''" and v: "has_column t ''value''"
    by (simp_all add: has_column_names [OF t(2)])
  show ?thesis using that [OF t(1) k v len t(2)] .
qed

lemma is_store_scenario: "is_store (scenario_db v)"
  by (simp add: is_store_def scenario_db_def meta_of_def)

lemma meta_values_scenario: "meta_values (scenario_db v) ''version'' = [v]"
  by (simp add: meta_values_def scenario_db_def meta_of_def cell_def)

lemma int_of_str_5: "int_of_str ''5'' = Some 5"
  by (simp add: int_of_str_def strip_def py_isspace_def py_isdigit_def)

lemma int_of_str_05: "int_of_str ''05'' = Some 5"
  by (simp add: int_of_str_def strip_def py_isspace_def py_isdigit_def)

lemma str_int_5: "str_int 5 = ''5''"
  by (simp add: str_int_def str_nat.simps)

lemma coerce_cases:
  "coerce v =
     (case v of
        PyNone \<Rightarrow> Inr PyNone
      | PyInt i \<Rightarrow> Inr (PyInt i)
      | PyStr s \<Rightarrow> (case int_of_str s of Some i \<Rightarrow> Inr (PyInt i) | None \<Rightarrow> Inr (PyStr s)))"
  by (simp add: coerce_def split: pyval.splits option.splits)


section \<open>Reading a metadata value\<close>

lemma get_meta_value_result:
  assumes "is_store (conn db)"
  shows "get_meta_value key fs db =
     ((case meta_values (conn db) key of
         [] \<Rightarrow> Inl ConfigError
       | v # _ \<Rightarrow> coerce v),
      commit fs (db\<lparr>issued := issued db @ [SelectColWhereEq ''value'' ''self'' ''key'' (PyStr key)]\<rparr>),
      db\<lparr>issued := issued db @ [SelectColWhereEq ''value'' ''self'' ''key'' (PyStr key)]\<rparr>)"
proof -
  from assms obtain t where t: "conn db ''self'' = Some t" "has_column t ''key''" "has_column t ''value''"
    by (rule is_store_cols)
  show ?thesis
    using t
    by (cases "filter (\<lambda>r. cell t ''key'' r = PyStr key) (rows t)")
       (simp_all add: get_meta_value_def exec_def meta_values_def getitem_def Let_def)
qed



section \<open>The version gate\<close>

lemma DB_init_existing:
  assumes "dbs fs path = Some d" "is_store d" "meta_values d ''version'' = v # vs" "coerce v = Inr w"
  shows "DB_init path client_version False ignore_version fs =
     (if py_str w \<noteq> py_str client_version \<and> \<not> ignore_version then (Inl ConfigError, fs)
      else (Inr \<lparr>db_path = path, version = w, conn = d,
                 issued = [SelectColWhereEq ''value'' ''self'' ''key'' (PyStr ''version'')]\<rparr>, fs))"
proof -
  let ?self = "\<lparr>db_path = path, version = PyNone, conn = d, issued = []\<rparr>"
  have c: "is_store (conn ?self)" using assms(2) by simp
  have f: "commit fs (?self\<lparr>issued := issued ?self @ [SelectColWhereEq ''value'' ''self'' ''key'' (PyStr ''version'')]\<rparr>) = fs"
    by (rule commit_same) (simp add: assms(1))
  show ?thesis
    using assms(1,3,4) f
    by (simp add: DB_init_def is_file_exists_def connect_def get_version_def
          get_meta_value_result [OF c] Let_def)
qed

text \<open>
  Claim C3, as amended. Take an existing store whose \<^verbatim>\<open>version\<close> entry, as
  \<^verbatim>\<open>get_meta_value\<close> reads it (\<^verbatim>\<open>None\<close> as \<^verbatim>\<open>None\<close>, integer text as the integer, other
  text as it is), differs from \<^verbatim>\<open>client_version\<close> when both are passed through \<^verbatim>\<open>str\<close>.
  Opening it without \<^verbatim>\<open>ignore_version\<close> raises \<^verbatim>\<open>ConfigError\<close>; opening it with
  \<^verbatim>\<open>ignore_version\<close> succeeds, and the handle's \<^verbatim>\<open>version\<close> is the value as read, not
  \<^verbatim>\<open>client_version\<close>. The file system is left as it was.
\<close>

theorem version_gate:
  assumes "dbs fs path = Some d" "is_store d" "meta_values d ''version'' = v # vs"
    and "coerce v = Inr w" "py_str w \<noteq> py_str client_version"
  shows "DB_init path client_version False False fs = (Inl ConfigError, fs) \<and>
         DB_init path client_version False True fs =
           (Inr \<lparr>db_path = path, version = w, conn = d,
                 issued = [SelectColWhereEq ''value'' ''self'' ''key'' (PyStr ''version'')]\<rparr>, fs)"
  using assms(5) by (simp add: DB_init_existing [OF assms(1-4)])

lemma scenario_fs_file: "dbs (scenario_fs v) ''contigs.db'' = Some (scenario_db v)"
  by (simp add: scenario_fs_def)

text \<open>A store stamped \<^verbatim>\<open>"5"\<close>, opened by a client at version 6.\<close>

theorem version_gate_witness:
  "dbs (scenario_fs (PyStr ''5'')) ''contigs.db'' = Some (scenario_db (PyStr ''5'')) \<and>
   is_store (scenario_db (PyStr ''5'')) \<and>
   meta_values (scenario_db (PyStr ''5'')) ''version'' = [PyStr ''5''] \<and>
   coerce (PyStr ''5'') = Inr (PyInt 5) \<and>
   py_str (PyInt 5) \<noteq> py_str (PyInt 6) \<and>
   DB_init ''contigs.db'' (PyInt 6) False False (scenario_fs (PyStr ''5'')) =
     (Inl ConfigError, scenario_fs (PyStr ''5'')) \<and>
   DB_init ''contigs.db'' (PyInt 6) False True (scenario_fs (PyStr ''5'')) =
     (Inr \<lparr>db_path = ''contigs.db'', version = PyInt 5, conn = scenario_db (PyStr ''5''),
           issued = [SelectColWhereEq ''value'' ''self'' ''key'' (PyStr ''version'')]\<rparr>,
      scenario_fs (PyStr ''5''))"
proof -
  have c: "coerce (PyStr ''5'') = Inr (PyInt 5)"
    by (simp add: coerce_cases int_of_str_5)
  have n: "py_str (PyInt 5) \<noteq> py_str (PyInt 6)"
    by (simp add: str_int_def str_nat.simps)
  show ?thesis
    using version_gate [OF scenario_fs_file is_store_scenario meta_values_scenario c n]
      scenario_fs_file is_store_scenario meta_values_scenario c n
    by simp
qed

text \<open>
  Claim C3 as stated fails when the stored text is an integer written another way: a
  store stamped \<^verbatim>\<open>"05"\<close> opens for a client at version 5 without the override, although
  \<^verbatim>\<open>"05"\<close> and \<^verbatim>\<open>"5"\<close> differ as text; the handle's \<^verbatim>\<open>version\<close> is then the integer 5,
  which is not the stored text.
\<close>

theorem version_gate_padded_text:
  "meta_values (scenario_db (PyStr ''05'')) ''version'' = [PyStr ''05''] \<and>
   py_str (PyStr ''05'') \<noteq> py_str (PyInt 5) \<and>
   DB_init ''contigs.db'' (PyInt 5) False False (scenario_fs (PyStr ''05'')) =
     (Inr \<lparr>db_path = ''contigs.db'', version = PyInt 5, conn = scenario_db (PyStr ''05''),
           issued = [SelectColWhereEq ''value'' ''self'' ''key'' (PyStr ''version'')]\<rparr>,
      scenario_fs (PyStr ''05'')) \<and>
   PyInt 5 \<noteq> PyStr ''05''"
proof -
  have c: "coerce (PyStr ''05'') = Inr (PyInt 5)"
    by (simp add: coerce_cases int_of_str_05)
  have n: "py_str (PyStr ''05'') \<noteq> py_str (PyInt 5)"
    by (simp add: str_int_5)
  show ?thesis
    using DB_init_existing [OF scenario_fs_file is_store_scenario meta_values_scenario c,
        of "PyInt 5" False] n
    by (simp add: meta_values_scenario str_int_5)
qed

section \<open>Creating a table\<close>

lemma exec_CreateTable:
  "exec (CreateTable n cs) [] fs db =
     (if conn db n = None \<and> cs \<noteq> [] \<and> distinct (map fst cs)
      then (Inr no_rows,
            fs\<lparr>dbs := (dbs fs)(db_path db \<mapsto> (conn db)(n \<mapsto> \<lparr>columns = cs, rows = []\<rparr>))\<rparr>,
            db\<lparr>issued := issued db @ [CreateTable n cs],
               conn := (conn db)(n \<mapsto> \<lparr>columns = cs, rows = []\<rparr>)\<rparr>)
      else (Inl BackendError, fs, db\<lparr>issued := issued db @ [CreateTable n cs]\<rparr>))"
  by (simp add: exec_def commit_def Let_def)

text \<open>
  Claim C6. When \<^verbatim>\<open>fields\<close> and \<^verbatim>\<open>types\<close> differ in length, \<^verbatim>\<open>create_table\<close> raises
  \<^verbatim>\<open>ConfigError\<close> and nothing has changed: no statement was handed to the backend, the
  handle and the files are as before. With equal lengths the one statement issued is the
  schema creation over the zipped pairs; the backend accepts it exactly when the table is
  new and the field names are distinct and not empty, and then the call returns with the
  table created and everything committed (a rejected statement surfaces as the backend's
  error).
\<close>

theorem create_table_length_check:
  "(length flds \<noteq> length types \<longrightarrow>
      create_table n flds types fs db = (Inl ConfigError, fs, db)) \<and>
   (length flds = length types \<longrightarrow>
      (case create_table n flds types fs db of
         (r, fs', db') \<Rightarrow>
           issued db' = issued db @ [CreateTable n (zip flds types)] \<and>
           (r = Inr ()) = (conn db n = None \<and> flds \<noteq> [] \<and> distinct flds) \<and>
           (r = Inr () \<longrightarrow>
              dbs fs' (db_path db') = Some (conn db') \<and>
              conn db' n = Some \<lparr>columns = zip flds types, rows = []\<rparr>)))"
proof (intro conjI impI)
  assume "length flds \<noteq> length types"
  then show "create_table n flds types fs db = (Inl ConfigError, fs, db)"
    by (simp add: create_table_def)
next
  assume len: "length flds = length types"
  then have names: "map fst (zip flds types) = flds" by simp
  show "case create_table n flds types fs db of
         (r, fs', db') \<Rightarrow>
           issued db' = issued db @ [CreateTable n (zip flds types)] \<and>
           (r = Inr ()) = (conn db n = None \<and> flds \<noteq> [] \<and> distinct flds) \<and>
           (r = Inr () \<longrightarrow>
              dbs fs' (db_path db') = Some (conn db') \<and>
              conn db' n = Some \<lparr>columns = zip flds types, rows = []\<rparr>)"
    using len by (auto simp add: create_table_def exec_CreateTable names commit_def)
qed

lemma scenario_no_genes: "conn (scenario_store v) ''genes'' = None"
  by (simp add: scenario_store_def scenario_db_def)

text \<open>Two fields against one type, then against two types, on the scenario store.\<close>

theorem create_table_length_check_witness:
  "length [''id'', ''name''] \<noteq> length [''text''] \<and>
   create_table ''genes'' [''id'', ''name''] [''text''] (scenario_fs PyNone) (scenario_store PyNone)
     = (Inl ConfigError, scenario_fs PyNone, scenario_store PyNone) \<and>
   length [''id'', ''name''] = length [''text'', ''numeric''] \<and>
   fst (create_table ''genes'' [''id'', ''name''] [''text'', ''numeric'']
          (scenario_fs PyNone) (scenario_store PyNone)) = Inr () \<and>
   issued (snd (snd (create_table ''genes'' [''id'', ''name''] [''text'', ''numeric'']
          (scenario_fs PyNone) (scenario_store PyNone))))
     = [CreateTable ''genes'' [(''id'', ''text''), (''name'', ''numeric'')]]"
proof -
  have a: "length [''id'', ''name''] \<noteq> length [''text'']" by simp
  have b: "length [''id'', ''name''] = length [''text'', ''numeric'']" by simp
  have i: "issued (scenario_store PyNone) = []" by (simp add: scenario_store_def)
  show ?thesis
    using create_table_length_check [of "[''id'', ''name'']" "[''text'']" "''genes''"
        "scenario_fs PyNone" "scenario_store PyNone"]
      create_table_length_check [of "[''id'', ''name'']" "[''text'', ''numeric'']" "''genes''"
        "scenario_fs PyNone" "scenario_store PyNone"]
    by (simp add: scenario_no_genes i split: prod.splits)
qed

section \<open>Updating a metadata value\<close>






section \<open>Copying a table between stores\<close>

lemma exec_SelectCol_frame:
  assumes "dbs fs (db_path db) = Some (conn db)"
    and "exec (SelectColWhereEq c n w v) ps fs db = (r, fs', db')"
  shows "fs' = fs \<and> conn db' = conn db \<and> db_path db' = db_path db"
  using assms
  by (auto simp: exec_def Let_def commit_def fun_upd_idem split: option.splits if_splits)

lemma exec_SelectAll_frame:
  assumes "dbs fs (db_path db) = Some (conn db)"
    and "exec (SelectAll n) ps fs db = (r, fs', db')"
  shows "fs' = fs \<and> conn db' = conn db \<and> db_path db' = db_path db"
  using assms
  by (auto simp: exec_def Let_def commit_def fun_upd_idem split: option.splits if_splits)

lemma get_meta_value_frame:
  assumes "dbs fs (db_path db) = Some (conn db)"
    and "get_meta_value key fs db = (r, fs', db')"
  shows "fs' = fs \<and> conn db' = conn db \<and> db_path db' = db_path db"
proof -
  obtain r0 fs0 db0 where e: "exec (SelectColWhereEq ''value'' ''self'' ''key'' (PyStr key)) [] fs db = (r0, fs0, db0)"
    by (cases "exec (SelectColWhereEq ''value'' ''self'' ''key'' (PyStr key)) [] fs db") auto
  from exec_SelectCol_frame [OF assms(1) e]
  have f: "fs0 = fs" "conn db0 = conn db" "db_path db0 = db_path db" by simp_all
  from assms(2) e have "fs' = fs0 \<and> db' = db0"
    by (auto simp: get_meta_value_def split: sum.splits list.splits)
  with f show ?thesis by simp
qed

lemma DB_init_frame:
  assumes "dbs fs path = Some d"
  shows "snd (DB_init path cv False ig fs) = fs \<and>
         (\<forall>h. fst (DB_init path cv False ig fs) = Inr h \<longrightarrow> conn h = d \<and> db_path h = path)"
proof -
  let ?self = "\<lparr>db_path = path, version = PyNone, conn = d, issued = []\<rparr>"
  obtain r fs1 db1 where g: "get_meta_value ''version'' fs ?self = (r, fs1, db1)"
    by (cases "get_meta_value ''version'' fs ?self") auto
  have "dbs fs (db_path ?self) = Some (conn ?self)" using assms by simp
  from get_meta_value_frame [OF this g]
  have f: "fs1 = fs" "conn db1 = d" "db_path db1 = path" by simp_all
  show ?thesis
    using assms g f
    by (cases r) (simp_all add: DB_init_def is_file_exists_def connect_def get_version_def Let_def)
qed



lemma get_all_rows_of_donor:
  assumes "dbs fs (db_path h) = Some (conn h)" "conn h tbl = Some st"
  shows "\<exists>h'. get_all_rows_from_table tbl fs h = (Inr (rows st), fs, h')"
  using assms
  by (simp add: get_all_rows_from_table_def exec_def Let_def commit_def fun_upd_idem)

lemma copy_paste_unfold:
  assumes "dbs fs src = Some sd" "sd tbl = Some st"
  shows "copy_paste tbl src fs db =
     (case fst (DB_init src PyNone False True fs) of
        Inl e \<Rightarrow> (Inl e, fs, db)
      | Inr h \<Rightarrow>
         (case rows st of
            [] \<Rightarrow> (Inr (), fs, db)
          | row0 # _ \<Rightarrow>
             (case exec (DeleteFrom tbl) [] fs db of
                (Inl e, fs3, db3) \<Rightarrow> (Inl e, fs3, db3)
              | (Inr _, fs3, db3) \<Rightarrow>
                  exec_many (InsertValues tbl (length row0)) (rows st) fs3 db3)))"
proof -
  from DB_init_frame [OF assms(1), of PyNone True]
  have fr: "snd (DB_init src PyNone False True fs) = fs"
    and ok: "\<And>h. fst (DB_init src PyNone False True fs) = Inr h \<Longrightarrow> conn h = sd \<and> db_path h = src"
    by simp_all
  obtain r where r: "DB_init src PyNone False True fs = (r, fs)"
    using fr by (cases "DB_init src PyNone False True fs") simp
  show ?thesis
  proof (cases r)
    case (Inl e)
    with r show ?thesis by (simp add: copy_paste_def)
  next
    case (Inr h)
    with r ok have h: "conn h = sd" "db_path h = src" by simp_all
    from get_all_rows_of_donor [of fs h tbl st] h assms
    obtain h' where "get_all_rows_from_table tbl fs h = (Inr (rows st), fs, h')" by auto
    with r Inr show ?thesis by (simp add: copy_paste_def)
  qed
qed

lemma exec_DeleteFrom:
  assumes "conn db tbl = Some dt"
  shows "exec (DeleteFrom tbl) [] fs db =
     (Inr no_rows,
      commit fs (db\<lparr>issued := issued db @ [DeleteFrom tbl], conn := (conn db)(tbl \<mapsto> dt\<lparr>rows := []\<rparr>)\<rparr>),
      db\<lparr>issued := issued db @ [DeleteFrom tbl], conn := (conn db)(tbl \<mapsto> dt\<lparr>rows := []\<rparr>)\<rparr>)"
  using assms by (simp add: exec_def Let_def)


lemma two_stores_donor: "dbs (two_stores rs) ''donor.db'' = Some (donor_db rs)"
  by (simp add: two_stores_def)

lemma donor_db_seqs: "donor_db rs ''seqs'' = Some (seqs\<lparr>rows := rs\<rparr>)"
  by (simp add: donor_db_def)

lemma scenario_store_seqs: "conn (scenario_store v) ''seqs'' = Some seqs"
  by (simp add: scenario_store_def scenario_db_def)

lemma is_store_donor: "is_store (donor_db rs)"
  by (simp add: is_store_def donor_db_def meta_of_def)

lemma meta_values_donor: "meta_values (donor_db rs) ''version'' = [PyStr ''5'']"
  by (simp add: meta_values_def donor_db_def meta_of_def cell_def)


section \<open>Commit after each statement\<close>

text \<open>Whatever goes through \<^verbatim>\<open>_exec\<close> and returns is committed.\<close>

lemma exec_commits:
  "exec q ps fs db = (Inr c, fs', db') \<Longrightarrow> dbs fs' (db_path db') = Some (conn db')"
  by (auto simp: exec_def Let_def commit_def split: sum.splits)

text \<open>
  Claim C2 says that after any mutating call, \<^verbatim>\<open>copy_paste\<close> included, the file holds
  what the connection sees. \<^verbatim>\<open>_exec\<close> commits and \<^verbatim>\<open>_exec_many\<close> does not: after
  \<^verbatim>\<open>copy_paste\<close> from a donor with one row has returned, the connection sees that row
  in the destination table, while the file has the table empty (the state the
  \<^verbatim>\<open>DELETE\<close> committed).
\<close>

theorem copy_paste_leaves_rows_uncommitted:
  "(case copy_paste ''seqs'' ''donor.db'' (two_stores [[PyStr ''c'', PyStr ''GGGG'']])
          (scenario_store (PyStr ''5'')) of
      (r, fs', db') \<Rightarrow>
        r = Inr () \<and>
        map_option rows (conn db' ''seqs'') = Some [[PyStr ''c'', PyStr ''GGGG'']] \<and>
        map_option (\<lambda>d. map_option rows (d ''seqs'')) (dbs fs' (db_path db')) = Some (Some []) \<and>
        dbs fs' (db_path db') \<noteq> Some (conn db'))"
proof -
  have init: "DB_init ''donor.db'' PyNone False True (two_stores [[PyStr ''c'', PyStr ''GGGG'']]) =
     (Inr \<lparr>db_path = ''donor.db'', version = PyInt 5, conn = donor_db [[PyStr ''c'', PyStr ''GGGG'']],
           issued = [SelectColWhereEq ''value'' ''self'' ''key'' (PyStr ''version'')]\<rparr>,
      two_stores [[PyStr ''c'', PyStr ''GGGG'']])"
    using DB_init_existing [OF two_stores_donor is_store_donor meta_values_donor,
        where w = "PyInt 5" and client_version = PyNone and ignore_version = True]
    by (simp add: coerce_cases int_of_str_5)
  let ?fs = "two_stores [[PyStr ''c'', PyStr ''GGGG'']]"
  let ?db = "scenario_store (PyStr ''5'')"
  let ?emptied = "(conn ?db)(''seqs'' \<mapsto> seqs\<lparr>rows := []\<rparr>)"
  let ?filled = "(conn ?db)(''seqs'' \<mapsto> seqs\<lparr>rows := [[PyStr ''c'', PyStr ''GGGG'']]\<rparr>)"
  have cp: "copy_paste ''seqs'' ''donor.db'' ?fs ?db =
      (Inr (),
       ?fs\<lparr>dbs := (dbs ?fs)(db_path ?db \<mapsto> ?emptied)\<rparr>,
       ?db\<lparr>issued := [DeleteFrom ''seqs'', InsertValues ''seqs'' 2], conn := ?filled\<rparr>)"
    by (simp add: copy_paste_unfold [OF two_stores_donor donor_db_seqs] init
          exec_DeleteFrom [OF scenario_store_seqs] exec_many_def Let_def commit_def)
       (simp add: seqs_def scenario_store_def)
  have differ: "?emptied \<noteq> ?filled"
  proof
    assume "?emptied = ?filled"
    then have "?emptied ''seqs'' = ?filled ''seqs''" by (rule arg_cong)
    then have "rows (seqs\<lparr>rows := []\<rparr>) = rows (seqs\<lparr>rows := [[PyStr ''c'', PyStr ''GGGG'']]\<rparr>)"
      by simp
    then show False by simp
  qed
  show ?thesis
    using differ by (simp add: cp)
qed

section \<open>The dict materializer: the caller's list, the key filter, the parent column\<close>

lemma first_index_less: "x \<in> set xs \<Longrightarrow> first_index xs x < length xs"
  by (induction xs) auto

lemma get_all_rows_handle:
  "get_all_rows_from_table t fs db = (r, fs', db') \<Longrightarrow>
     conn db' = conn db \<and> db_path db' = db_path db \<and> version db' = version db"
  by (auto simp: get_all_rows_from_table_def exec_def Let_def split: option.splits)

lemma omit_parent_present:
  assumes "PyStr ''__parent__'' \<in> set ts"
  shows "omit_parent True ts [0..<length ts] =
     Inr (remove1 (PyStr ''__parent__'') ts,
          remove1 (first_index ts (PyStr ''__parent__'')) [0..<length ts])"
  using assms first_index_less [OF assms]
  by (simp add: omit_parent_def list_index_def list_remove_def)

text \<open>
  Claim C10. When \<^verbatim>\<open>get_table_as_dict\<close> is called with \<^verbatim>\<open>omit_parent_column\<close> set and a
  \<^verbatim>\<open>table_structure\<close> list that contains \<^verbatim>\<open>__parent__\<close>, the heap after the call --
  whether the call returns or raises -- differs from the heap before it at the address of
  that list only, and there the first \<^verbatim>\<open>__parent__\<close> is gone: the caller's list itself was
  changed, and every other container (the columns and the keys of interest among them)
  is as it was. The handle keeps its path, its version and what its connection sees.
\<close>

theorem table_structure_mutated_in_place:
  assumes "PyStr ''__parent__'' \<in> set (h r)"
  shows "(case get_table_as_dict t (Some r) string_the_key columns_of_interest
                 keys_of_interest True error_if_no_data h fs db of
            (res, h', fs', db') \<Rightarrow>
               h' = h(r := remove1 (PyStr ''__parent__'') (h r)) \<and>
               conn db' = conn db \<and> db_path db' = db_path db \<and> version db' = version db)"
proof -
  from assms have ne: "h r \<noteq> []" by auto
  show ?thesis
    using ne
    by (auto simp add: get_table_as_dict_def truthy_def deref_def omit_parent_present [OF assms]
          Let_def split: sum.splits prod.splits dest: get_all_rows_handle)
qed

text \<open>The structure list at address 0, columns of interest at 1, keys of interest at 2.\<close>

theorem table_structure_mutated_in_place_witness:
  "PyStr ''__parent__'' \<in> set (parent_heap 0) \<and>
   fst (snd (get_table_as_dict ''seqs'' (Some 0) False (Some 1) (Some 2) True True
               parent_heap (scenario_fs (PyStr ''5'')) (scenario_store (PyStr ''5''))))
     = parent_heap(0 := [PyStr ''id'', PyStr ''seq''])"
proof -
  have p: "PyStr ''__parent__'' \<in> set (parent_heap 0)"
    by (simp add: parent_heap_def)
  have r: "remove1 (PyStr ''__parent__'') (parent_heap 0) = [PyStr ''id'', PyStr ''seq'']"
    by (simp add: parent_heap_def)
  show ?thesis
    using table_structure_mutated_in_place [where h = parent_heap and r = 0 and t = "''seqs''"
        and string_the_key = False and columns_of_interest = "Some 1"
        and keys_of_interest = "Some 2" and error_if_no_data = True
        and fs = "scenario_fs (PyStr ''5'')" and db = "scenario_store (PyStr ''5'')", OF p] p
    by (simp add: r split: prod.splits)
qed

text \<open>
  Claim C1 says that with \<^verbatim>\<open>keys_of_interest\<close> supplied only rows whose key is in it are
  returned, and that the spec's table with \<^verbatim>\<open>keys_of_interest={'a'}\<close> gives exactly the
  entry for \<^verbatim>\<open>a\<close>. The code tests \<^verbatim>\<open>if keys_of_interest:\<close> for every row and removes each
  key it finds: once \<^verbatim>\<open>a\<close> is found the set is empty, the test fails, and the row of
  \<^verbatim>\<open>b\<close> is kept as well.
\<close>

theorem keys_of_interest_filter_lapses:
  "fst (get_table_as_dict ''seqs'' None False None (Some 0) False True keys_heap
          (scenario_fs (PyStr ''5'')) (scenario_store (PyStr ''5'')))
     = Inr [(PyStr ''a'', [(PyStr ''seq'', PyStr ''ACGT'')]),
            (PyStr ''b'', [(PyStr ''seq'', PyStr ''TTTT'')])]"
  by (simp add: get_table_as_dict_def truthy_def deref_def keys_heap_def omit_parent_def
        get_table_structure_def get_all_rows_from_table_def exec_def commit_def getitem_def
        scenario_fs_def scenario_store_def scenario_db_def seqs_def meta_of_def)

text \<open>
  Claim C5 says that names and values stay aligned wherever \<^verbatim>\<open>__parent__\<close> stands. The
  code removes the name from \<^verbatim>\<open>table_structure\<close> and goes on indexing the shortened list
  with the positions of the full one. With the columns \<^verbatim>\<open>id\<close>, \<^verbatim>\<open>__parent__\<close>, \<^verbatim>\<open>seq\<close>
  and one row, the lookup \<^verbatim>\<open>table_structure[2]\<close> raises \<^verbatim>\<open>IndexError\<close>; no entry is made.
\<close>

theorem parent_column_in_the_middle:
  "fst (get_table_as_dict ''layered'' None False None None True True (\<lambda>_. [])
          layered_fs layered_store) = Inl IndexError"
  by (simp add: get_table_as_dict_def truthy_def deref_def omit_parent_def
        list_index_def list_remove_def
        get_table_structure_def get_all_rows_from_table_def exec_def commit_def getitem_def
        layered_fs_def layered_store_def layered_db_def layered_def meta_of_def)

text \<open>With \<^verbatim>\<open>__parent__\<close> as the last column the positions still fit.\<close>

lemma parent_column_last:
  "fst (get_table_as_dict ''trailing'' None False None None True True (\<lambda>_. [])
          layered_fs trailing_store) = Inr [(PyStr ''a'', [(PyStr ''seq'', PyStr ''ACGT'')])]"
  by (simp add: get_table_as_dict_def truthy_def deref_def omit_parent_def
        list_index_def list_remove_def
        get_table_structure_def get_all_rows_from_table_def exec_def commit_def getitem_def
        layered_fs_def trailing_store_def trailing_def meta_of_def)

section \<open>The duplicate filter of the alignment-hit parser\<close>

text \<open>
  Claim C9 says that a record whose query start was seen before is skipped. The parser
  looks the query start up in \<^verbatim>\<open>positions_processed\<close> and adds the hit end to it. Of
  three records, the second has the first one's query start and is appended all the same;
  the third, with a query start of its own that equals the first one's hit end, is skipped.
\<close>

theorem same_query_start_not_skipped:
  "(case find_parse [[[hit_a, hit_b, hit_c]]] of
      (r, positions_processed, ps) \<Rightarrow>
        r = Inr () \<and>
        positions_processed = {40, 80} \<and>
        map first_start ps = [0, 0] \<and>
        map second_end ps = [40, 80] \<and>
        map midline ps = [''|||||'', ''||||x''])"
  by (simp add: find_parse_def hit_a_def hit_b_def hit_c_def insert_commute)

end
